theory Spec2Isabelle
  imports Complex_Main "HOL-Library.Word" "HOL-Library.AList"
begin

unbundle bit_operations_syntax

section \<open>File watcher configuration\<close>

text \<open>
  \<^verbatim>\<open>size_t\<close> is taken as a 64-bit unsigned word. A \<^verbatim>\<open>std::function\<close> member is modelled
  by the identity of the stored callable (\<open>None\<close> when it is empty); calling it is
  recorded in a trace of invocations, since the callable itself is user code.
\<close>

type_synonym size_t = "64 word"
type_synonym callback_id = nat

record FileWatcherConfig =
  buffer_size :: size_t
  auto_grow_buffer :: bool
  max_buffer_size :: size_t
  on_buffer_overflow :: "callback_id option"

definition min_buffer_size :: size_t where
  "min_buffer_size = 4096"

text \<open>The default member initialisers of \<^verbatim>\<open>FileWatcherConfig\<close>.\<close>

definition FileWatcherConfig_default :: FileWatcherConfig where
  "FileWatcherConfig_default =
     \<lparr>buffer_size = 65536, auto_grow_buffer = True, max_buffer_size = 1048576,
      on_buffer_overflow = None\<rparr>"

text \<open>\<^verbatim>\<open>FileWatcherConfig::validate\<close>: two clamps of \<^verbatim>\<open>buffer_size\<close>, in this order.\<close>

definition validate :: "FileWatcherConfig \<Rightarrow> FileWatcherConfig" where
  "validate c =
     (let c1 = (if buffer_size c < min_buffer_size then c\<lparr>buffer_size := min_buffer_size\<rparr> else c);
          c2 = (if buffer_size c1 > max_buffer_size c1
                then c1\<lparr>buffer_size := max_buffer_size c1\<rparr> else c1)
      in c2)"

subsection \<open>Buffer overflow in the directory-change backend\<close>

text \<open>
  The \<^verbatim>\<open>ERROR_NOTIFY_ENUM_DIR\<close> branch of the worker loop in
  \<^verbatim>\<open>FileWatcher::start_native\<close> (Windows). The worker's state here is the size of its
  buffer; \<open>resize_ok\<close> says whether \<^verbatim>\<open>buffer.resize\<close> returns (it may throw, and the
  \<^verbatim>\<open>catch (...)\<close> swallows the exception before the store and the callback). The result
  is the new buffer size and the calls of \<^verbatim>\<open>on_buffer_overflow\<close> made, each with its two
  arguments.
\<close>

type_synonym overflow_call = "callback_id \<times> size_t \<times> size_t"

definition on_overflow_signal ::
  "FileWatcherConfig \<Rightarrow> bool \<Rightarrow> size_t \<Rightarrow> size_t \<times> overflow_call list" where
  "on_overflow_signal config resize_ok buffer =
     (if auto_grow_buffer config then
        (let current_size = buffer;
             new_size = min (current_size * 2) (max_buffer_size config)
         in if new_size > current_size then
              (if resize_ok then
                 (new_size,
                  (case on_buffer_overflow config of
                     Some cb \<Rightarrow> [(cb, current_size, new_size)]
                   | None \<Rightarrow> []))
               else (current_size, []))
            else (current_size, []))
      else (buffer, []))"

text \<open>A run of overflow signals, each handled in turn; the calls are collected in order.\<close>

fun overflow_signals ::
  "FileWatcherConfig \<Rightarrow> bool list \<Rightarrow> size_t \<Rightarrow> size_t \<times> overflow_call list" where
  "overflow_signals config [] buffer = (buffer, [])"
| "overflow_signals config (resize_ok # rest) buffer =
     (let (b1, calls1) = on_overflow_signal config resize_ok buffer;
          (b2, calls2) = overflow_signals config rest b1
      in (b2, calls1 @ calls2))"

text \<open>
  The worker starts with \<^verbatim>\<open>config_.buffer_size\<close> of the validated configuration
  (\<^verbatim>\<open>FileWatcher\<close>'s constructor validates, \<^verbatim>\<open>start_native\<close> copies the size).
\<close>

definition worker_initial_buffer :: "FileWatcherConfig \<Rightarrow> size_t" where
  "worker_initial_buffer config = buffer_size (validate config)"

section \<open>Errors\<close>

datatype ErrorType =
    ErrorType_None
  | FileNotFound
  | FileAccessDenied
  | FileEmpty
  | FileReadError
  | ParseError
  | InvalidFormat
  | Timeout
  | WatcherError
  | Unknown

text \<open>
  \<^verbatim>\<open>ErrorInfo\<close>. The three-argument constructor stamps the error with
  \<^verbatim>\<open>system_clock::now()\<close>; the clock reading is an input of the model. The default
  constructor leaves the time point at the epoch.
\<close>

record ErrorInfo =
  type :: ErrorType
  message :: string
  file_path :: string
  timestamp :: int

definition ErrorInfo_default :: ErrorInfo where
  "ErrorInfo_default = \<lparr>type = ErrorType_None, message = [], file_path = [], timestamp = 0\<rparr>"

definition ErrorInfo_make :: "ErrorType \<Rightarrow> string \<Rightarrow> string \<Rightarrow> int \<Rightarrow> ErrorInfo" where
  "ErrorInfo_make t msg path now = \<lparr>type = t, message = msg, file_path = path, timestamp = now\<rparr>"

section \<open>Reading a file with retries\<close>

text \<open>
  \<^verbatim>\<open>FileReadRetryConfig\<close>: \<^verbatim>\<open>max_retries\<close> is an \<^verbatim>\<open>int\<close>, a 32-bit word read as signed;
  \<^verbatim>\<open>retry_delay\<close> is a \<^verbatim>\<open>std::chrono::milliseconds\<close>, a signed 64-bit count of
  milliseconds; \<^verbatim>\<open>backoff_multiplier\<close> is a \<^verbatim>\<open>double\<close>, given by a rational that stands for
  the nearest binary64 value, as a literal in the C++ source does.
\<close>

record FileReadRetryConfig =
  max_retries :: "32 word"
  retry_delay :: "64 word"
  backoff_multiplier :: rat

definition FileReadRetryConfig_default :: FileReadRetryConfig where
  "FileReadRetryConfig_default = \<lparr>max_retries = 3, retry_delay = 5, backoff_multiplier = 3 / 2\<rparr>"

definition INT_MAX :: int where
  "INT_MAX = 2 ^ 31 - 1"

definition INT_MIN :: int where
  "INT_MIN = - (2 ^ 31)"

text \<open>
  Binary64 arithmetic, as far as the scaling of the delay needs it. \<open>round_double\<close>
  rounds a rational to the nearest value with a 53-bit significand, ties to the even
  one, with the fixed spacing of the subnormal range below \<open>2 ^ (- 1022)\<close>. Values too large for
  a \<^verbatim>\<open>double\<close> are not turned into an infinity: they are outside the range of \<^verbatim>\<open>int\<close>
  either way, which is all that the cast below asks.
\<close>

function bit_length :: "int \<Rightarrow> nat" where
  "bit_length n = (if n \<le> 0 then 0 else Suc (bit_length (n div 2)))"
  by pat_completeness auto
termination
  by (relation "measure nat") auto

declare bit_length.simps [simp del]

definition pow2 :: "int \<Rightarrow> rat" where
  "pow2 k = (if 0 \<le> k then 2 ^ nat k else 1 / 2 ^ nat (- k))"

text \<open>For \<open>x > 0\<close>, the \<open>e\<close> with \<open>2 ^ e \<le> x < 2 ^ (e + 1)\<close>.\<close>

definition floor_log2 :: "rat \<Rightarrow> int" where
  "floor_log2 x =
     (let (p, q) = quotient_of x;
          k = int (bit_length p) - int (bit_length q)
      in if pow2 k \<le> x then k else k - 1)"

definition round_half_even :: "rat \<Rightarrow> int" where
  "round_half_even q =
     (let f = \<lfloor>q\<rfloor>; d = q - of_int f
      in if d < 1 / 2 then f else if 1 / 2 < d then f + 1 else if even f then f else f + 1)"

definition round_double :: "rat \<Rightarrow> rat" where
  "round_double x =
     (if x = 0 then 0
      else (let e = max (floor_log2 \<bar>x\<bar>) (- 1022); ulp = pow2 (e - 52)
            in of_int (round_half_even (x / ulp)) * ulp))"

text \<open>\<^verbatim>\<open>static_cast<int>\<close> of a floating value: the fraction is discarded (towards zero).\<close>

definition static_cast_int :: "rat \<Rightarrow> int" where
  "static_cast_int x = (if 0 \<le> x then \<lfloor>x\<rfloor> else \<lceil>x\<rceil>)"

text \<open>
  \<^verbatim>\<open>static_cast<int>(delay.count() * config.backoff_multiplier)\<close>: the count is converted
  to \<^verbatim>\<open>double\<close>, the product is taken in \<^verbatim>\<open>double\<close>, and the cast truncates it. The cast
  is undefined when the truncated value is not an \<^verbatim>\<open>int\<close>: that is \<open>None\<close>.
\<close>

definition scaled_delay :: "int \<Rightarrow> rat \<Rightarrow> int option" where
  "scaled_delay d mult =
     (let t = static_cast_int (round_double (round_double (of_int d) * round_double mult))
      in if INT_MIN \<le> t \<and> t \<le> INT_MAX then Some t else None)"

text \<open>
  What one attempt finds on the file system, in the order the code asks:
  \<^verbatim>\<open>exists(path, ec)\<close> and its error code, \<^verbatim>\<open>file_size(path, ec)\<close> and its error code,
  whether the \<^verbatim>\<open>ifstream\<close> opened, what reading the stream gave, and whether the stream
  is \<^verbatim>\<open>good()\<close> or at \<^verbatim>\<open>eof()\<close> afterwards. An error code is present as its message.
  \<open>obs_clock\<close> is the system clock when the attempt builds an \<^verbatim>\<open>ErrorInfo\<close>.
\<close>

datatype read_outcome =
    ReadBytes string
  | ReadThrows string
  | ReadThrowsUnknown

record attempt_obs =
  obs_exists :: bool
  obs_exists_ec :: "string option"
  obs_size_ec :: "string option"
  obs_file_size :: nat
  obs_open_ok :: bool
  obs_read :: read_outcome
  obs_stream_ok :: bool
  obs_clock :: int

text \<open>
  The body of one iteration of the loop in \<^verbatim>\<open>read_file_with_retry\<close> after the sleep:
  \<open>Inr\<close> is the \<^verbatim>\<open>return content\<close>, \<open>Inl\<close> the value assigned to \<^verbatim>\<open>last_error\<close> on the way
  to the next iteration (every failing path assigns it).
\<close>

definition read_attempt :: "string \<Rightarrow> attempt_obs \<Rightarrow> ErrorInfo + string" where
  "read_attempt path_str ob =
     (if \<not> obs_exists ob then
        Inl (ErrorInfo_make FileNotFound ''File does not exist'' path_str (obs_clock ob))
      else case obs_exists_ec ob of
        Some m \<Rightarrow>
          Inl (ErrorInfo_make FileAccessDenied (''Cannot access file: '' @ m) path_str (obs_clock ob))
      | None \<Rightarrow>
        (case obs_size_ec ob of
           Some m \<Rightarrow>
             Inl (ErrorInfo_make FileReadError (''Cannot get file size: '' @ m) path_str (obs_clock ob))
         | None \<Rightarrow>
           if obs_file_size ob = 0 then
             Inl (ErrorInfo_make FileEmpty ''File is empty'' path_str (obs_clock ob))
           else if \<not> obs_open_ok ob then
             Inl (ErrorInfo_make FileAccessDenied ''Cannot open file for reading'' path_str (obs_clock ob))
           else
             (case obs_read ob of
                ReadThrows what \<Rightarrow>
                  Inl (ErrorInfo_make FileReadError (''Exception during file read: '' @ what)
                         path_str (obs_clock ob))
              | ReadThrowsUnknown \<Rightarrow>
                  Inl (ErrorInfo_make FileReadError ''Unknown exception during file read''
                         path_str (obs_clock ob))
              | ReadBytes content \<Rightarrow>
                  if obs_stream_ok ob then
                    (if content \<noteq> [] then Inr content
                     else Inl (ErrorInfo_make FileEmpty ''File content is empty after read''
                                 path_str (obs_clock ob)))
                  else
                    Inl (ErrorInfo_make FileReadError ''File stream in bad state after read''
                           path_str (obs_clock ob)))))"

text \<open>
  The result of \<^verbatim>\<open>read_file_with_retry\<close>: the returned optional, the value written to
  \<^verbatim>\<open>*error_out\<close>, and the durations passed to \<^verbatim>\<open>sleep_for\<close>, in order (milliseconds).
\<close>

record read_result =
  returned :: "string option"
  error_out :: ErrorInfo
  slept :: "int list"

text \<open>
  The \<^verbatim>\<open>for\<close> loop, by recursion on the number of iterations left. \<open>obs\<close> gives what
  attempt number \<open>attempt\<close> finds. From the second attempt on, the loop sleeps for
  \<open>delay\<close> and then scales it for the next time. \<open>None\<close> is a run whose behaviour the
  language leaves undefined: a scaled delay that is not an \<^verbatim>\<open>int\<close>, or the \<^verbatim>\<open>++attempt\<close>
  that ends the loop when \<^verbatim>\<open>attempt\<close> is already the largest \<^verbatim>\<open>int\<close> (the loop condition
  \<^verbatim>\<open>attempt <= max_retries\<close> cannot fail then).
\<close>

fun retry_loop ::
  "FileReadRetryConfig \<Rightarrow> string \<Rightarrow> (nat \<Rightarrow> attempt_obs) \<Rightarrow> nat \<Rightarrow> nat \<Rightarrow> int \<Rightarrow>
   ErrorInfo \<Rightarrow> int list \<Rightarrow> read_result option" where
  "retry_loop config path_str obs 0 attempt delay last_error sl =
     (if int attempt > INT_MAX then None
      else Some \<lparr>returned = None, error_out = last_error, slept = sl\<rparr>)"
| "retry_loop config path_str obs (Suc n) attempt delay last_error sl =
     (case (if attempt > 0
            then map_option (Pair (sl @ [delay])) (scaled_delay delay (backoff_multiplier config))
            else Some (sl, delay)) of
        None \<Rightarrow> None
      | Some (sl1, delay1) \<Rightarrow>
          (case read_attempt path_str (obs attempt) of
             Inr c \<Rightarrow> Some \<lparr>returned = Some c, error_out = ErrorInfo_default, slept = sl1\<rparr>
           | Inl e \<Rightarrow> retry_loop config path_str obs n (Suc attempt) delay1 e sl1))"

text \<open>The loop runs for \<^verbatim>\<open>attempt = 0 .. max_retries\<close>: \<open>max_retries + 1\<close> times, or not at all.\<close>

definition read_file_with_retry ::
  "string \<Rightarrow> FileReadRetryConfig \<Rightarrow> (nat \<Rightarrow> attempt_obs) \<Rightarrow> read_result option" where
  "read_file_with_retry path_str config obs =
     retry_loop config path_str obs (nat (sint (max_retries config) + 1)) 0
       (sint (retry_delay config)) ErrorInfo_default []"

text \<open>
  Whether every scaling of the delay in \<open>n\<close> iterations from attempt \<open>attempt\<close> is
  defined, when no attempt ends the loop early.
\<close>

fun casts_defined :: "rat \<Rightarrow> nat \<Rightarrow> nat \<Rightarrow> int \<Rightarrow> bool" where
  "casts_defined mult 0 attempt d = True"
| "casts_defined mult (Suc n) attempt d =
     (if attempt > 0 then
        (case scaled_delay d mult of
           None \<Rightarrow> False
         | Some d1 \<Rightarrow> casts_defined mult n (Suc attempt) d1)
      else casts_defined mult n (Suc attempt) d)"

text \<open>Two observations for examples: an empty file, and a file read in full.\<close>

definition obs_empty_file :: "int \<Rightarrow> attempt_obs" where
  "obs_empty_file now =
     \<lparr>obs_exists = True, obs_exists_ec = None, obs_size_ec = None, obs_file_size = 0,
      obs_open_ok = True, obs_read = ReadBytes [], obs_stream_ok = True, obs_clock = now\<rparr>"

definition obs_file :: "string \<Rightarrow> int \<Rightarrow> attempt_obs" where
  "obs_file c now =
     \<lparr>obs_exists = True, obs_exists_ec = None, obs_size_ec = None, obs_file_size = length c,
      obs_open_ok = True, obs_read = ReadBytes c, obs_stream_ok = True, obs_clock = now\<rparr>"



definition empty_then_file :: "nat \<Rightarrow> string \<Rightarrow> nat \<Rightarrow> attempt_obs" where
  "empty_then_file k c i = (if i < k then obs_empty_file (int i) else obs_file c (int i))"

definition stable_file :: "string \<Rightarrow> nat \<Rightarrow> attempt_obs" where
  "stable_file c i = obs_file c (int i)"

section \<open>Strings and the key-value parser\<close>

text \<open>
  The members of \<^verbatim>\<open>std::string\<close> the parsers use. A position that the C++ reports as
  \<^verbatim>\<open>npos\<close> is \<open>None\<close>.
\<close>

fun find_first_not_of :: "string \<Rightarrow> string \<Rightarrow> nat option" where
  "find_first_not_of [] chars = None"
| "find_first_not_of (c # cs) chars =
     (if c \<in> set chars then map_option Suc (find_first_not_of cs chars) else Some 0)"

definition find_last_not_of :: "string \<Rightarrow> string \<Rightarrow> nat option" where
  "find_last_not_of str chars =
     (case find_first_not_of (rev str) chars of
        None \<Rightarrow> None
      | Some i \<Rightarrow> Some (length str - 1 - i))"

fun find_char :: "string \<Rightarrow> char \<Rightarrow> nat option" where
  "find_char [] ch = None"
| "find_char (c # cs) ch = (if c = ch then Some 0 else map_option Suc (find_char cs ch))"

text \<open>\<^verbatim>\<open>substr(pos, n)\<close> and \<^verbatim>\<open>substr(pos)\<close>, used only with \<open>pos \<le> size\<close>.\<close>

definition substr :: "string \<Rightarrow> nat \<Rightarrow> nat \<Rightarrow> string" where
  "substr str pos n = take n (drop pos str)"

definition substr_from :: "string \<Rightarrow> nat \<Rightarrow> string" where
  "substr_from str pos = drop pos str"

text \<open>The characters \<^verbatim>\<open>" \t\r\n"\<close> that \<^verbatim>\<open>trim\<close> strips.\<close>

definition trim_chars :: string where
  "trim_chars = [CHR '' '', CHR 0x09, CHR 0x0D, CHR 0x0A]"

definition trim :: "string \<Rightarrow> string" where
  "trim str =
     (case find_first_not_of str trim_chars of
        None \<Rightarrow> []
      | Some start \<Rightarrow>
          (case find_last_not_of str trim_chars of
             None \<Rightarrow> []
           | Some end \<Rightarrow> substr str start (end - start + 1)))"

text \<open>
  The lines that successive calls of \<^verbatim>\<open>std::getline\<close> deliver: the text is cut at each
  newline, and a last line without a newline is delivered if it is not empty. The first
  argument is the line read so far, reversed.
\<close>

fun getlines_from :: "string \<Rightarrow> string \<Rightarrow> string list" where
  "getlines_from acc [] = (if acc = [] then [] else [rev acc])"
| "getlines_from acc (c # cs) =
     (if c = CHR 0x0A then rev acc # getlines_from [] cs else getlines_from (c # acc) cs)"

definition getlines :: "string \<Rightarrow> string list" where
  "getlines s = getlines_from [] s"

type_synonym ValueMap = "(string \<times> string) list"

text \<open>
  An \<^verbatim>\<open>unordered_map\<close> is an association list without repeated keys: \<^verbatim>\<open>m[k] = v\<close> is
  \<^const>\<open>AList.update\<close>, \<^verbatim>\<open>find\<close> is \<^const>\<open>map_of\<close>, \<^verbatim>\<open>size\<close> is \<^const>\<open>length\<close>. The order of the
  list stands for the unspecified iteration order of the container.

  The surrounding quotes of a value, if it has both.
\<close>

definition strip_quotes :: "string \<Rightarrow> string" where
  "strip_quotes v =
     (if length v \<ge> 2 \<and>
         ((hd v = CHR 0x22 \<and> last v = CHR 0x22) \<or> (hd v = CHR 0x27 \<and> last v = CHR 0x27))
      then substr v 1 (length v - 2) else v)"

text \<open>The body of the \<^verbatim>\<open>while\<close> loop of \<^verbatim>\<open>SimpleKeyValueParser::parse\<close> for one line.\<close>

definition kv_line :: "bool \<Rightarrow> ValueMap \<Rightarrow> string \<Rightarrow> ValueMap" where
  "kv_line yaml_style result raw =
     (let line = trim raw in
      if line = [] \<or> hd line = CHR ''#'' \<or> hd line = CHR '';'' then result
      else if line = ''---'' \<or> line = ''...'' then result
      else if hd line = CHR ''['' \<and> last line = CHR '']'' then result
      else
        (let sep_pos =
               (if yaml_style then find_char line CHR '':''
                else (case find_char line CHR ''='' of
                        None \<Rightarrow> find_char line CHR '':''
                      | Some i \<Rightarrow> Some i))
         in case sep_pos of
              None \<Rightarrow> result
            | Some pos \<Rightarrow>
                (let key = trim (substr line 0 pos);
                     val = strip_quotes (trim (substr_from line (pos + 1)))
                 in if key \<noteq> [] then AList.update key val result else result)))"

text \<open>\<^verbatim>\<open>SimpleKeyValueParser::parse\<close>: the returned flag and the map left in \<^verbatim>\<open>result\<close>.\<close>

definition SimpleKeyValueParser_parse :: "string \<Rightarrow> bool \<Rightarrow> bool \<times> ValueMap" where
  "SimpleKeyValueParser_parse content yaml_style =
     (let result = foldl (kv_line yaml_style) [] (getlines content)
      in (result \<noteq> [], result))"

section \<open>Typed values\<close>

text \<open>
  A bound variable holds a \<^verbatim>\<open>bool\<close>, a \<^verbatim>\<open>std::string\<close> or a floating-point number; a
  number is its rational value. What the C and C++ libraries compute is a parameter of
  the model:
  \<^item> \<open>extract_float\<close> is \<^verbatim>\<open>iss >> temp\<close> for a floating \<^verbatim>\<open>temp\<close>: the value
    read and the characters left in the stream, or \<open>None\<close> when the extraction fails;
  \<^item> \<open>strtod\<close> gives the value, \<open>None\<close> for an infinity or a NaN, and the number of
    characters consumed;
  \<^item> \<open>to_string\<close> is \<^verbatim>\<open>std::to_string(double)\<close>.
\<close>

datatype tval = VBool bool | VString string | VFloat rat

record stdlib =
  extract_float :: "string \<Rightarrow> (rat \<times> string) option"
  strtod :: "string \<Rightarrow> rat option \<times> nat"
  to_string :: "rat \<Rightarrow> string"

definition tolower :: "char \<Rightarrow> char" where
  "tolower c =
     (let n = (of_char c :: nat) in if 65 \<le> n \<and> n \<le> 90 then char_of (n + 32) else c)"

definition isspace :: "char \<Rightarrow> bool" where
  "isspace c = (let n = (of_char c :: nat) in n = 32 \<or> (9 \<le> n \<and> n \<le> 13))"

text \<open>\<^verbatim>\<open>iss >> remaining\<close> for a string: blanks are skipped, then a word is read.\<close>

definition extract_word :: "string \<Rightarrow> string" where
  "extract_word s = takeWhile (\<lambda>c. \<not> isspace c) (dropWhile isspace s)"

text \<open>
  \<^verbatim>\<open>parse_value<T>\<close>, the generic template at a floating \<^verbatim>\<open>T\<close> and the two
  specialisations. \<open>None\<close> is \<^verbatim>\<open>return false\<close>, which leaves the target alone.
\<close>

definition parse_value_float :: "stdlib \<Rightarrow> string \<Rightarrow> rat option" where
  "parse_value_float lib str =
     (case extract_float lib str of
        None \<Rightarrow> None
      | Some (temp, rest) \<Rightarrow> if extract_word rest = [] then Some temp else None)"

definition parse_value_bool :: "string \<Rightarrow> bool option" where
  "parse_value_bool str =
     (let lower = map tolower str in
      if lower = ''true'' \<or> lower = ''yes'' \<or> lower = ''1'' \<or> lower = ''on'' then Some True
      else if lower = ''false'' \<or> lower = ''no'' \<or> lower = ''0'' \<or> lower = ''off'' then Some False
      else None)"

definition parse_value_string :: "string \<Rightarrow> string option" where
  "parse_value_string str = Some (strip_quotes str)"

text \<open>The instance of \<^verbatim>\<open>parse_value\<close> chosen by the type of the target, given by a value of it.\<close>

fun parse_value :: "stdlib \<Rightarrow> tval \<Rightarrow> string \<Rightarrow> tval option" where
  "parse_value lib (VBool _) str = map_option VBool (parse_value_bool str)"
| "parse_value lib (VString _) str = map_option VString (parse_value_string str)"
| "parse_value lib (VFloat _) str = map_option VFloat (parse_value_float lib str)"

section \<open>The JSON reader (picojson)\<close>

text \<open>
  \<^verbatim>\<open>input<Iter>\<close>: \<open>in_cur\<close> is the text from the iterator \<^verbatim>\<open>cur_\<close> up to \<^verbatim>\<open>end_\<close>,
  \<open>in_consumed\<close> is \<^verbatim>\<open>consumed_\<close> and \<open>in_line\<close> is \<^verbatim>\<open>line_\<close>. The flag is set only
  while that text is not empty, so \<^verbatim>\<open>*cur_\<close> is its head.
  A character read is its byte value as an \<^verbatim>\<open>int\<close>, and \<open>-1\<close> at the end.
\<close>

record input =
  in_cur :: string
  in_consumed :: bool
  in_line :: int

definition input_init :: "string \<Rightarrow> input" where
  "input_init s = \<lparr>in_cur = s, in_consumed = False, in_line = 1\<rparr>"

definition getc :: "input \<Rightarrow> int \<times> input" where
  "getc inp =
     (let in1 = (if in_consumed inp
                 then inp\<lparr>in_line := (if hd (in_cur inp) = CHR 0x0A then in_line inp + 1 else in_line inp),
                          in_cur := tl (in_cur inp)\<rparr>
                 else inp)
      in if in_cur in1 = [] then (- 1, in1\<lparr>in_consumed := False\<rparr>)
         else (of_char (hd (in_cur in1)), in1\<lparr>in_consumed := True\<rparr>))"

definition ungetc :: "input \<Rightarrow> input" where
  "ungetc inp = inp\<lparr>in_consumed := False\<rparr>"

text \<open>
  The loops of the reader take a bound on their iterations. \<open>None\<close> is a run that
  returns nothing: the bound cut it short, or (in \<open>json_parse\<close>) the constructor
  \<^verbatim>\<open>picojson::value(double)\<close> threw \<^verbatim>\<open>std::overflow_error\<close> on an infinity or a NaN, which
  nothing up to \<^verbatim>\<open>Params::update\<close> catches. Any other result is the result of the code.
\<close>

fun skip_ws :: "nat \<Rightarrow> input \<Rightarrow> input option" where
  "skip_ws 0 inp = None"
| "skip_ws (Suc n) inp =
     (let (ch, in1) = getc inp
      in if \<not> (ch = 32 \<or> ch = 9 \<or> ch = 10 \<or> ch = 13) then Some (ungetc in1)
         else skip_ws n in1)"

definition expect :: "nat \<Rightarrow> input \<Rightarrow> int \<Rightarrow> (bool \<times> input) option" where
  "expect n inp expected =
     (case skip_ws n inp of
        None \<Rightarrow> None
      | Some in1 \<Rightarrow>
          (let (ch, in2) = getc in1
           in if ch \<noteq> expected then Some (False, ungetc in2) else Some (True, in2)))"

fun match :: "string \<Rightarrow> input \<Rightarrow> bool \<times> input" where
  "match [] inp = (True, inp)"
| "match (p # ps) inp =
     (let (ch, in1) = getc inp
      in if ch \<noteq> of_char p then (False, ungetc in1) else match ps in1)"

text \<open>\<^verbatim>\<open>_parse_quadhex\<close>: the first argument counts the digits still to read.\<close>

fun json_parse_quadhex_loop :: "nat \<Rightarrow> int \<Rightarrow> input \<Rightarrow> int \<times> input" where
  "json_parse_quadhex_loop 0 uni_ch inp = (uni_ch, inp)"
| "json_parse_quadhex_loop (Suc k) uni_ch inp =
     (let (hex, in1) = getc inp
      in if hex = - 1 then (- 1, in1)
         else if 48 \<le> hex \<and> hex \<le> 57 then json_parse_quadhex_loop k (uni_ch * 16 + (hex - 48)) in1
         else if 65 \<le> hex \<and> hex \<le> 70 then json_parse_quadhex_loop k (uni_ch * 16 + (hex - (65 - 10))) in1
         else if 97 \<le> hex \<and> hex \<le> 102 then json_parse_quadhex_loop k (uni_ch * 16 + (hex - (97 - 10))) in1
         else (- 1, ungetc in1))"

definition json_parse_quadhex :: "input \<Rightarrow> int \<times> input" where
  "json_parse_quadhex inp = json_parse_quadhex_loop (Suc (Suc (Suc (Suc 0)))) 0 inp"

text \<open>The bytes that \<^verbatim>\<open>_parse_codepoint\<close> appends for a code point (UTF-8).\<close>

definition utf8_bytes :: "int \<Rightarrow> string" where
  "utf8_bytes uni_ch =
     (if uni_ch < 0x80 then [char_of uni_ch]
      else
        (if uni_ch < 0x800 then [char_of (0xc0 OR drop_bit 6 uni_ch)]
         else
           (if uni_ch < 0x10000 then [char_of (0xe0 OR drop_bit 12 uni_ch)]
            else [char_of (0xf0 OR drop_bit 18 uni_ch),
                  char_of (0x80 OR (drop_bit 12 uni_ch AND 0x3f))])
           @ [char_of (0x80 OR (drop_bit 6 uni_ch AND 0x3f))])
        @ [char_of (0x80 OR (uni_ch AND 0x3f))])"

definition json_parse_codepoint :: "string \<Rightarrow> input \<Rightarrow> bool \<times> string \<times> input" where
  "json_parse_codepoint out inp =
     (let (uni_ch, in1) = json_parse_quadhex inp
      in if uni_ch = - 1 then (False, out, in1)
         else if 0xd800 \<le> uni_ch \<and> uni_ch \<le> 0xdfff then
           (if 0xdc00 \<le> uni_ch then (False, out, in1)
            else
              (let (c1, in2) = getc in1
               in if c1 \<noteq> 92 then (False, out, ungetc in2)
                  else
                    (let (c2, in3) = getc in2
                     in if c2 \<noteq> 117 then (False, out, ungetc in3)
                        else
                          (let (second, in4) = json_parse_quadhex in3
                           in if \<not> (0xdc00 \<le> second \<and> second \<le> 0xdfff) then (False, out, in4)
                              else (True,
                                    out @ utf8_bytes
                                      ((push_bit 10 (uni_ch - 0xd800) OR ((second - 0xdc00) AND 0x3ff))
                                       + 0x10000),
                                    in4)))))
         else (True, out @ utf8_bytes uni_ch, in1))"

text \<open>\<^verbatim>\<open>_parse_string\<close>: the flag returned, the text appended to, and the input.\<close>

fun json_parse_string :: "nat \<Rightarrow> string \<Rightarrow> input \<Rightarrow> (bool \<times> string \<times> input) option" where
  "json_parse_string 0 out inp = None"
| "json_parse_string (Suc n) out inp =
     (let (ch, in1) = getc inp
      in if ch < 32 then Some (False, out, ungetc in1)
         else if ch = 34 then Some (True, out, in1)
         else if ch = 92 then
           (let (ch2, in2) = getc in1
            in if ch2 = - 1 then Some (False, out, in2)
               else if ch2 = 34 then json_parse_string n (out @ [CHR 0x22]) in2
               else if ch2 = 92 then json_parse_string n (out @ [CHR 0x5C]) in2
               else if ch2 = 47 then json_parse_string n (out @ [CHR 0x2F]) in2
               else if ch2 = 98 then json_parse_string n (out @ [CHR 0x08]) in2
               else if ch2 = 102 then json_parse_string n (out @ [CHR 0x0C]) in2
               else if ch2 = 110 then json_parse_string n (out @ [CHR 0x0A]) in2
               else if ch2 = 114 then json_parse_string n (out @ [CHR 0x0D]) in2
               else if ch2 = 116 then json_parse_string n (out @ [CHR 0x09]) in2
               else if ch2 = 117 then
                 (let (ok, out1, in3) = json_parse_codepoint out in2
                  in if \<not> ok then Some (False, out1, in3) else json_parse_string n out1 in3)
               else Some (False, out, in2))
         else json_parse_string n (out @ [char_of ch]) in1)"

fun json_parse_number :: "nat \<Rightarrow> string \<Rightarrow> input \<Rightarrow> (string \<times> input) option" where
  "json_parse_number 0 num_str inp = None"
| "json_parse_number (Suc n) num_str inp =
     (let (ch, in1) = getc inp
      in if (48 \<le> ch \<and> ch \<le> 57) \<or> ch = 43 \<or> ch = 45 \<or> ch = 101 \<or> ch = 69 \<or> ch = 46
         then json_parse_number n (num_str @ [char_of ch]) in1
         else Some (num_str, ungetc in1))"

text \<open>
  \<^verbatim>\<open>picojson::value\<close>. An object is a \<^verbatim>\<open>std::map\<close>, here an association list
  without repeated keys: \<^verbatim>\<open>o[key]\<close> is \<^const>\<open>AList.update\<close>. The list keeps the members in the
  order of their first appearance, the \<^verbatim>\<open>std::map\<close> in the order of the keys; the only
  traversal, in \<^verbatim>\<open>PicojsonParser::parse\<close>, fills an \<^verbatim>\<open>unordered_map\<close>, whose contents do
  not depend on it.
\<close>

datatype json =
    JNull
  | JBool bool
  | JNumber rat
  | JString string
  | JArray "json list"
  | JObject "(string \<times> json) list"

definition DEFAULT_MAX_DEPTHS :: nat where
  "DEFAULT_MAX_DEPTHS = 100"

text \<open>
  \<^verbatim>\<open>_parse\<close> with \<^verbatim>\<open>default_parse_context\<close>, whose state is \<^verbatim>\<open>depths_\<close>; the value
  stored through \<^verbatim>\<open>out_\<close> is returned, and \<open>None\<close> in its place is \<^verbatim>\<open>return false\<close>.
  \<^verbatim>\<open>_parse_array\<close> and \<^verbatim>\<open>_parse_object\<close> are inlined up to their \<^verbatim>\<open>do\<close> loops, which are
  the second and third function: \<^verbatim>\<open>parse_array_start\<close> lowers \<^verbatim>\<open>depths_\<close> for the
  items, \<^verbatim>\<open>parse_object_start\<close> only tests it.
\<close>

fun json_parse :: "stdlib \<Rightarrow> nat \<Rightarrow> nat \<Rightarrow> input \<Rightarrow> (json option \<times> input) option"
  and json_array_items ::
    "stdlib \<Rightarrow> nat \<Rightarrow> nat \<Rightarrow> json list \<Rightarrow> input \<Rightarrow> (json option \<times> input) option"
  and json_object_items ::
    "stdlib \<Rightarrow> nat \<Rightarrow> nat \<Rightarrow> (string \<times> json) list \<Rightarrow> input \<Rightarrow> (json option \<times> input) option"
where
  "json_parse lib 0 depths inp = None"
| "json_parse lib (Suc n) depths inp =
     (case skip_ws n inp of
        None \<Rightarrow> None
      | Some in0 \<Rightarrow>
          (let (ch, in1) = getc in0
           in if ch = 110 then
                (let (ok, in2) = match ''ull'' in1 in Some (if ok then Some JNull else None, in2))
              else if ch = 102 then
                (let (ok, in2) = match ''alse'' in1
                 in Some (if ok then Some (JBool False) else None, in2))
              else if ch = 116 then
                (let (ok, in2) = match ''rue'' in1
                 in Some (if ok then Some (JBool True) else None, in2))
              else if ch = 34 then
                (case json_parse_string n [] in1 of
                   None \<Rightarrow> None
                 | Some (ok, out, in2) \<Rightarrow> Some (if ok then Some (JString out) else None, in2))
              else if ch = 91 then
                (if depths = 0 then Some (None, in1)
                 else
                   (case expect n in1 93 of
                      None \<Rightarrow> None
                    | Some (ok, in2) \<Rightarrow>
                        if ok then Some (Some (JArray []), in2)
                        else json_array_items lib n (depths - 1) [] in2))
              else if ch = 123 then
                (if depths = 0 then Some (None, in1)
                 else
                   (case expect n in1 125 of
                      None \<Rightarrow> None
                    | Some (ok, in2) \<Rightarrow>
                        if ok then Some (Some (JObject []), in2)
                        else json_object_items lib n depths [] in2))
              else if (48 \<le> ch \<and> ch \<le> 57) \<or> ch = 45 then
                (case json_parse_number n [] (ungetc in1) of
                   None \<Rightarrow> None
                 | Some (num_str, in2) \<Rightarrow>
                     if num_str = [] then Some (None, in2)
                     else
                       (let (f, used) = strtod lib num_str
                        in if used = length num_str then
                             (case f of
                                None \<Rightarrow> None
                              | Some d \<Rightarrow> Some (Some (JNumber d), in2))
                           else Some (None, in2)))
              else Some (None, ungetc in1)))"
| "json_array_items lib 0 depths acc inp = None"
| "json_array_items lib (Suc n) depths acc inp =
     (case json_parse lib n depths inp of
        None \<Rightarrow> None
      | Some (r, in1) \<Rightarrow>
          (case r of
             None \<Rightarrow> Some (None, in1)
           | Some v \<Rightarrow>
               (case expect n in1 44 of
                  None \<Rightarrow> None
                | Some (comma, in2) \<Rightarrow>
                    if comma then json_array_items lib n depths (acc @ [v]) in2
                    else
                      (case expect n in2 93 of
                         None \<Rightarrow> None
                       | Some (ok, in3) \<Rightarrow>
                           Some (if ok then Some (JArray (acc @ [v])) else None, in3)))))"
| "json_object_items lib 0 depths acc inp = None"
| "json_object_items lib (Suc n) depths acc inp =
     (case expect n inp 34 of
        None \<Rightarrow> None
      | Some (q, in1) \<Rightarrow>
          if \<not> q then Some (None, in1)
          else
            (case json_parse_string n [] in1 of
               None \<Rightarrow> None
             | Some (s_ok, key, in2) \<Rightarrow>
                 if \<not> s_ok then Some (None, in2)
                 else
                   (case expect n in2 58 of
                      None \<Rightarrow> None
                    | Some (colon, in3) \<Rightarrow>
                        if \<not> colon then Some (None, in3)
                        else
                          (case json_parse lib n depths in3 of
                             None \<Rightarrow> None
                           | Some (r, in4) \<Rightarrow>
                               (case r of
                                  None \<Rightarrow> Some (None, in4)
                                | Some v \<Rightarrow>
                                    (case expect n in4 44 of
                                       None \<Rightarrow> None
                                     | Some (comma, in5) \<Rightarrow>
                                         if comma
                                         then json_object_items lib n depths (AList.update key v acc) in5
                                         else
                                           (case expect n in5 125 of
                                              None \<Rightarrow> None
                                            | Some (ok, in6) \<Rightarrow>
                                                Some (if ok
                                                      then Some (JObject (AList.update key v acc))
                                                      else None, in6))))))))"

text \<open>The rest of the current line, which the error message quotes.\<close>

fun error_near :: "nat \<Rightarrow> string \<Rightarrow> input \<Rightarrow> string option" where
  "error_near 0 err inp = None"
| "error_near (Suc n) err inp =
     (let (ch, in1) = getc inp
      in if ch = - 1 \<or> ch = 10 then Some err
         else if ch \<ge> 32 then error_near n (err @ [char_of ch]) in1
         else error_near n err in1)"

text \<open>
  \<^verbatim>\<open>picojson::parse(value &out, const std::string &s)\<close>: \<open>Inr\<close> is the value with an empty
  error string; \<open>Inl (line, near)\<close> is the error string
  \<^verbatim>\<open>syntax error at line <line> near: <near>\<close>, which is never empty.
\<close>

definition picojson_parse :: "stdlib \<Rightarrow> nat \<Rightarrow> string \<Rightarrow> ((int \<times> string) + json) option" where
  "picojson_parse lib n s =
     (case json_parse lib n DEFAULT_MAX_DEPTHS (input_init s) of
        None \<Rightarrow> None
      | Some (r, inp) \<Rightarrow>
          (case r of
             Some v \<Rightarrow> Some (Inr v)
           | None \<Rightarrow>
               (case error_near n [] inp of
                  None \<Rightarrow> None
                | Some near \<Rightarrow> Some (Inl (in_line inp, near)))))"

text \<open>
  The loop of \<^verbatim>\<open>PicojsonParser::parse\<close> over the members of the object: strings,
  numbers, booleans and nulls are stored as text, arrays and objects are skipped.
\<close>

fun picojson_member :: "stdlib \<Rightarrow> ValueMap \<Rightarrow> string \<times> json \<Rightarrow> ValueMap" where
  "picojson_member lib result (key, JString s) = AList.update key s result"
| "picojson_member lib result (key, JNumber d) = AList.update key (to_string lib d) result"
| "picojson_member lib result (key, JBool b) =
     AList.update key (if b then ''true'' else ''false'') result"
| "picojson_member lib result (key, JNull) = AList.update key [] result"
| "picojson_member lib result (key, JArray _) = result"
| "picojson_member lib result (key, JObject _) = result"

definition PicojsonParser_parse :: "stdlib \<Rightarrow> nat \<Rightarrow> string \<Rightarrow> (bool \<times> ValueMap) option" where
  "PicojsonParser_parse lib n content =
     (case picojson_parse lib n content of
        None \<Rightarrow> None
      | Some (Inl err) \<Rightarrow> Some (False, [])
      | Some (Inr v) \<Rightarrow>
          (case v of
             JObject obj \<Rightarrow>
               (let result = foldl (picojson_member lib) [] obj in Some (result \<noteq> [], result))
           | _ \<Rightarrow> Some (False, [])))"

subsection \<open>A library for examples\<close>

text \<open>
  An instance of the library parameter that reads and prints plain decimal numbers
  (an optional sign, digits, an optional fraction); it serves to run the model on
  concrete files.
\<close>

definition is_digit :: "char \<Rightarrow> bool" where
  "is_digit c = (let n = (of_char c :: nat) in 48 \<le> n \<and> n \<le> 57)"

definition digits_value :: "string \<Rightarrow> nat" where
  "digits_value ds = foldl (\<lambda>a c. 10 * a + (of_char c - 48)) 0 ds"

definition read_decimal :: "string \<Rightarrow> (rat \<times> string) option" where
  "read_decimal s =
     (let s1 = dropWhile isspace s;
          neg = (s1 \<noteq> [] \<and> hd s1 = CHR ''-'');
          s2 = (if s1 \<noteq> [] \<and> (hd s1 = CHR ''-'' \<or> hd s1 = CHR ''+'') then tl s1 else s1);
          ip = takeWhile is_digit s2;
          r1 = dropWhile is_digit s2;
          dot = (r1 \<noteq> [] \<and> hd r1 = CHR ''.'');
          fp = (if dot then takeWhile is_digit (tl r1) else []);
          r2 = (if dot then dropWhile is_digit (tl r1) else r1)
      in if ip = [] \<and> fp = [] then None
         else Some ((if neg then - 1 else 1) *
                      (of_nat (digits_value ip) + of_nat (digits_value fp) / 10 ^ length fp),
                    r2))"

fun show_digits :: "nat \<Rightarrow> nat \<Rightarrow> string" where
  "show_digits 0 n = []"
| "show_digits (Suc k) n = show_digits k (n div 10) @ [char_of (48 + n mod 10)]"

function show_nat :: "nat \<Rightarrow> string" where
  "show_nat n =
     (if n < 10 then [char_of (48 + n)] else show_nat (n div 10) @ [char_of (48 + n mod 10)])"
  by pat_completeness auto
termination
  by (relation "measure id") auto

declare show_nat.simps [simp del]

definition show_fixed6 :: "rat \<Rightarrow> string" where
  "show_fixed6 x =
     (let n = nat \<lfloor>\<bar>x\<bar> * 1000000 + 1 / 2\<rfloor>
      in (if x < 0 then ''-'' else []) @ show_nat (n div 1000000) @ ''.''
         @ show_digits 6 (n mod 1000000))"

definition decimal_stdlib :: stdlib where
  "decimal_stdlib =
     \<lparr>extract_float = read_decimal,
      strtod = (\<lambda>s. case read_decimal s of
                       None \<Rightarrow> (Some 0, 0)
                     | Some (v, r) \<Rightarrow> (Some v, length s - length r)),
      to_string = show_fixed6\<rparr>"

section \<open>Params\<close>

datatype FileFormat = Auto | Plain | KeyValue | Json | Yaml

text \<open>
  \<^verbatim>\<open>std::filesystem::path(path).extension()\<close>: the part of the last path component from
  its last dot on, empty when there is no dot, when the dot is the first character, or
  for the components \<^verbatim>\<open>.\<close> and \<^verbatim>\<open>..\<close>.
\<close>

definition path_filename :: "string \<Rightarrow> string" where
  "path_filename path = rev (takeWhile (\<lambda>c. c \<noteq> CHR ''/'') (rev path))"

definition path_extension :: "string \<Rightarrow> string" where
  "path_extension path =
     (let f = path_filename path;
          r = takeWhile (\<lambda>c. c \<noteq> CHR ''.'') (rev f)
      in if f = ''.'' \<or> f = ''..'' then []
         else if length r = length f then []
         else if Suc (length r) = length f then []
         else CHR ''.'' # rev r)"

definition detect_format :: "string \<Rightarrow> FileFormat" where
  "detect_format path =
     (let ext = map tolower (path_extension path)
      in if ext = ''.json'' then Json
         else if ext = ''.yaml'' \<or> ext = ''.yml'' then Yaml
         else if ext = ''.ini'' \<or> ext = ''.cfg'' \<or> ext = ''.conf'' then KeyValue
         else if ext = ''.txt'' then Plain
         else KeyValue)"

text \<open>
  \<^verbatim>\<open>Params::FileCache\<close>. Time points are counts of nanoseconds; \<^verbatim>\<open>cache_duration\<close> is
  10 ms, \<^verbatim>\<open>file_time_type::min()\<close> is the least 64-bit count, and a default
  \<^verbatim>\<open>steady_clock::time_point\<close> is 0.
\<close>

record FileCache =
  last_modify_time :: int
  last_access :: int
  file_exists :: bool

definition cache_duration :: int where
  "cache_duration = 10000000"

definition file_time_min :: int where
  "file_time_min = - (2 ^ 63)"

text \<open>
  The bound variables live in the caller's memory, a map from addresses to typed
  values. \<^verbatim>\<open>Binding<T>\<close> holds the address of its target and the default; the type \<^verbatim>\<open>T\<close>
  is the type of the default.
\<close>

type_synonym addr = nat
type_synonym store = "addr \<Rightarrow> tval"

record Binding =
  target :: addr
  default_value :: tval

definition Binding_update :: "stdlib \<Rightarrow> Binding \<Rightarrow> string \<Rightarrow> store \<Rightarrow> bool \<times> store" where
  "Binding_update lib b str_value mem =
     (case parse_value lib (default_value b) str_value of
        Some v \<Rightarrow> (True, mem(target b := v))
      | None \<Rightarrow> (False, mem))"

definition apply_default :: "Binding \<Rightarrow> store \<Rightarrow> store" where
  "apply_default b mem = mem(target b := default_value b)"

text \<open>
  The members of \<^verbatim>\<open>Params\<close> that \<^verbatim>\<open>bind\<close>, \<^verbatim>\<open>on_change\<close>, \<^verbatim>\<open>set_watcher_config\<close> and
  \<^verbatim>\<open>update\<close> use; member \<^verbatim>\<open>x_\<close> is field \<open>m_x\<close>. The mutex is not modelled: calls are
  taken one at a time. Log output is not modelled.
\<close>

record Params =
  m_file_path :: string
  m_format :: FileFormat
  m_file_cache :: FileCache
  m_bindings :: "(string \<times> Binding) list"
  m_current_values :: ValueMap
  m_file_watcher_config :: FileWatcherConfig
  m_file_read_retry_config :: FileReadRetryConfig
  m_last_error :: ErrorInfo
  m_on_change_callback :: "callback_id option"
  m_in_callback :: bool

definition Params_new :: "string \<Rightarrow> FileFormat \<Rightarrow> Params" where
  "Params_new path format =
     \<lparr>m_file_path = path,
      m_format = (if format = Auto then detect_format path else format),
      m_file_cache = \<lparr>last_modify_time = file_time_min, last_access = 0, file_exists = False\<rparr>,
      m_bindings = [],
      m_current_values = [],
      m_file_watcher_config = FileWatcherConfig_default,
      m_file_read_retry_config = FileReadRetryConfig_default,
      m_last_error = ErrorInfo_default,
      m_on_change_callback = None,
      m_in_callback = False\<rparr>"

definition set_watcher_config :: "FileWatcherConfig \<Rightarrow> Params \<Rightarrow> Params" where
  "set_watcher_config config p = p\<lparr>m_file_watcher_config := validate config\<rparr>"

text \<open>\<^verbatim>\<open>Params::bind\<close>: the binding is stored under the name, then the variable is assigned.\<close>

definition bind :: "string \<Rightarrow> addr \<Rightarrow> tval \<Rightarrow> Params \<times> store \<Rightarrow> Params \<times> store" where
  "bind name variable dflt st =
     (case st of (p, mem) \<Rightarrow>
        (p\<lparr>m_bindings := AList.update name \<lparr>target = variable, default_value = dflt\<rparr> (m_bindings p)\<rparr>,
         mem(variable := dflt)))"

definition on_change :: "callback_id option \<Rightarrow> Params \<Rightarrow> Params" where
  "on_change callback p = p\<lparr>m_on_change_callback := callback\<rparr>"

text \<open>The text that \<^verbatim>\<open>ensure_file_exists\<close> writes into a new file, by format.\<close>

definition file_template :: "FileFormat \<Rightarrow> string" where
  "file_template format =
     (case format of
        Json \<Rightarrow> ''{'' @ [CHR 0x0A] @ ''  // Live Tuner parameters'' @ [CHR 0x0A]
                 @ ''  // Edit values here and save'' @ [CHR 0x0A] @ ''}'' @ [CHR 0x0A]
      | Yaml \<Rightarrow> ''# Live Tuner parameters'' @ [CHR 0x0A] @ ''# Edit values here and save''
                 @ [CHR 0x0A] @ ''---'' @ [CHR 0x0A]
      | _ \<Rightarrow> ''# Live Tuner parameters'' @ [CHR 0x0A] @ ''# Format: key = value'' @ [CHR 0x0A]
              @ [CHR 0x0A])"

text \<open>
  \<^verbatim>\<open>ensure_file_exists\<close>, given whether the file exists and whether the \<^verbatim>\<open>ofstream\<close>
  opens: the contents of the file it creates, if it creates one.
\<close>

definition ensure_file_exists :: "Params \<Rightarrow> bool \<Rightarrow> bool \<Rightarrow> string option" where
  "ensure_file_exists p file_there stream_opens =
     (if \<not> file_there then
        (if stream_opens then Some (file_template (m_format p)) else None)
      else None)"

text \<open>The \<^verbatim>\<open>switch\<close> of \<^verbatim>\<open>load_file\<close>: the parser and the message for the format.\<close>

definition parse_by_format :: "stdlib \<Rightarrow> nat \<Rightarrow> FileFormat \<Rightarrow> string \<Rightarrow> (bool \<times> ValueMap) option" where
  "parse_by_format lib n format text =
     (case format of
        Json \<Rightarrow> PicojsonParser_parse lib n text
      | Yaml \<Rightarrow> Some (SimpleKeyValueParser_parse text True)
      | _ \<Rightarrow> Some (SimpleKeyValueParser_parse text False))"

definition parse_failure_message :: "FileFormat \<Rightarrow> string" where
  "parse_failure_message format =
     (case format of
        Json \<Rightarrow> ''Failed to parse JSON format''
      | Yaml \<Rightarrow> ''Failed to parse YAML format''
      | _ \<Rightarrow> ''Failed to parse key-value format'')"

text \<open>The loop that looks for a new or changed value and stops at the first.\<close>

fun any_changed :: "ValueMap \<Rightarrow> ValueMap \<Rightarrow> bool" where
  "any_changed cur [] = False"
| "any_changed cur ((key, val) # rest) =
     (case map_of cur key of
        None \<Rightarrow> True
      | Some old \<Rightarrow> if old \<noteq> val then True else any_changed cur rest)"

text \<open>The loop over the bindings, in the order of the list.\<close>

fun update_bindings :: "stdlib \<Rightarrow> ValueMap \<Rightarrow> (string \<times> Binding) list \<Rightarrow> store \<Rightarrow> store" where
  "update_bindings lib cur [] mem = mem"
| "update_bindings lib cur ((name, b) # rest) mem =
     update_bindings lib cur rest
       (case map_of cur name of
          Some s \<Rightarrow> snd (Binding_update lib b s mem)
        | None \<Rightarrow> apply_default b mem)"

text \<open>
  \<^verbatim>\<open>load_file\<close>: the flag returned, the object and the memory afterwards. \<open>obs\<close> is what
  the attempts to read find, \<open>clock\<close> the system clock for a parse error. The outer
  \<open>None\<close> is a run that returns nothing (see \<open>retry_loop\<close> and \<open>json_parse\<close>).
\<close>

definition load_file ::
  "stdlib \<Rightarrow> nat \<Rightarrow> Params \<Rightarrow> store \<Rightarrow> (nat \<Rightarrow> attempt_obs) \<Rightarrow> int \<Rightarrow> (bool \<times> Params \<times> store) option" where
  "load_file lib n p mem obs clock =
     (case read_file_with_retry (m_file_path p) (m_file_read_retry_config p) obs of
        None \<Rightarrow> None
      | Some rr \<Rightarrow>
        (case returned rr of
           None \<Rightarrow> Some (False, p\<lparr>m_last_error := error_out rr\<rparr>, mem)
         | Some text \<Rightarrow>
             (case parse_by_format lib n (m_format p) text of
                None \<Rightarrow> None
              | Some (parsed, new_values) \<Rightarrow>
                  if \<not> parsed \<and> new_values = [] then
                    Some (False,
                          p\<lparr>m_last_error :=
                               ErrorInfo_make ParseError (parse_failure_message (m_format p))
                                 (m_file_path p) clock\<rparr>,
                          mem)
                  else if \<not> any_changed (m_current_values p) new_values \<and>
                          length new_values = length (m_current_values p) then
                    Some (False, p, mem)
                  else
                    Some (True,
                          p\<lparr>m_current_values := new_values, m_last_error := ErrorInfo_default\<rparr>,
                          update_bindings lib new_values (m_bindings p) mem))))"

text \<open>
  What one call of \<^verbatim>\<open>update\<close> finds outside: the thread that makes the call, whether
  the file exists and whether it can be created, the steady clock, the file's modify
  time, what the read attempts find, and the system clock.
\<close>

type_synonym thread_id = nat

record update_env =
  env_thread :: thread_id
  env_exists :: bool
  env_create_ok :: bool
  env_now :: int
  env_modify_time :: int
  env_attempts :: "nat \<Rightarrow> attempt_obs"
  env_clock :: int

text \<open>
  The outcome of \<^verbatim>\<open>update\<close>: the value returned, the object and the memory afterwards,
  the file created if any, and the calls of the change callback made before returning,
  each with the thread it runs on and the memory the callback finds. \<^verbatim>\<open>update\<close> calls
  the callback directly, so the thread is the caller's.
\<close>

record update_result =
  updated :: bool
  params_after :: Params
  memory_after :: store
  created_file :: "string option"
  callback_calls :: "(callback_id \<times> thread_id \<times> store) list"

definition update :: "stdlib \<Rightarrow> nat \<Rightarrow> Params \<Rightarrow> store \<Rightarrow> update_env \<Rightarrow> update_result option" where
  "update lib n p mem env =
     (if m_in_callback p then
        Some \<lparr>updated = False, params_after = p, memory_after = mem, created_file = None,
              callback_calls = []\<rparr>
      else
        (let created = ensure_file_exists p (env_exists env) (env_create_ok env);
             now = env_now env;
             current_modify_time = env_modify_time env
         in if file_exists (m_file_cache p) \<and>
               now - last_access (m_file_cache p) < cache_duration \<and>
               current_modify_time = last_modify_time (m_file_cache p) then
              Some \<lparr>updated = False, params_after = p, memory_after = mem, created_file = created,
                    callback_calls = []\<rparr>
            else
              (case load_file lib n p mem (env_attempts env) (env_clock env) of
                 None \<Rightarrow> None
               | Some (upd, p1, mem1) \<Rightarrow>
                   (let p2 = p1\<lparr>m_file_cache :=
                                 \<lparr>last_modify_time = current_modify_time, last_access = now,
                                  file_exists = True\<rparr>\<rparr>;
                        callback_to_invoke = (if upd then m_on_change_callback p2 else None)
                    in case callback_to_invoke of
                         Some cb \<Rightarrow>
                           Some \<lparr>updated = upd, params_after = p2\<lparr>m_in_callback := False\<rparr>,
                                 memory_after = mem1, created_file = created,
                                 callback_calls = [(cb, env_thread env, mem1)]\<rparr>
                       | None \<Rightarrow>
                           Some \<lparr>updated = upd, params_after = p2, memory_after = mem1,
                                 created_file = created, callback_calls = []\<rparr>))))"

text \<open>The value a binding's target has after the loop over the bindings.\<close>

definition bound_value :: "stdlib \<Rightarrow> ValueMap \<Rightarrow> string \<Rightarrow> Binding \<Rightarrow> tval \<Rightarrow> tval" where
  "bound_value lib vals name b old =
     (case map_of vals name of
        None \<Rightarrow> default_value b
      | Some s \<Rightarrow> (case parse_value lib (default_value b) s of Some v \<Rightarrow> v | None \<Rightarrow> old))"

text \<open>
  A call of \<^verbatim>\<open>update\<close> from thread 0 on an existing file that every attempt reads in
  full.
\<close>

definition env_file :: "string \<Rightarrow> int \<Rightarrow> int \<Rightarrow> update_env" where
  "env_file text now mtime =
     \<lparr>env_thread = 0, env_exists = True, env_create_ok = True, env_now = now, env_modify_time = mtime,
      env_attempts = stable_file text, env_clock = now\<rparr>"

section \<open>Successive calls\<close>

text \<open>
  A second call of \<^verbatim>\<open>update\<close> on the object and the memory that a first call left, and
  what a caller sees of a call: the value returned and the value of one variable.
\<close>

definition then_update ::
  "stdlib \<Rightarrow> nat \<Rightarrow> update_result option \<Rightarrow> update_env \<Rightarrow> update_result option" where
  "then_update lib n first env =
     (case first of
        None \<Rightarrow> None
      | Some r \<Rightarrow> update lib n (params_after r) (memory_after r) env)"

definition update_outcome :: "update_result option \<Rightarrow> addr \<Rightarrow> (bool \<times> tval) option" where
  "update_outcome res a =
     (case res of None \<Rightarrow> None | Some r \<Rightarrow> Some (updated r, memory_after r a))"

text \<open>A memory for examples, and the object of the examples with \<open>speed\<close> bound at address 0.\<close>

definition example_memory :: store where
  "example_memory = (\<lambda>a. VFloat 0)"

definition speed_bound :: "Params \<times> store" where
  "speed_bound = bind ''speed'' 0 (VFloat 1) (Params_new ''params.ini'' Auto, example_memory)"

section \<open>FileWatcher\<close>









section \<open>Properties\<close>

text \<open>
  C8 (as amended). After \<^verbatim>\<open>validate\<close>, \<open>buffer_size \<le> max_buffer_size\<close> holds for every
  configuration, and \<open>min_buffer_size \<le> buffer_size\<close> holds whenever
  \<open>min_buffer_size \<le> max_buffer_size\<close>; when \<open>max_buffer_size\<close> is below the minimum, the
  upper clamp is applied last and \<open>buffer_size\<close> ends equal to \<open>max_buffer_size\<close>.
  \<open>max_buffer_size\<close> is unchanged. The validated configuration is what
  \<^verbatim>\<open>Params::set_watcher_config\<close> stores and what the watcher's worker takes its buffer
  size from.
\<close>

theorem validate_bounds:
  "buffer_size (validate c) \<le> max_buffer_size (validate c) \<and>
   (min_buffer_size \<le> max_buffer_size c \<longrightarrow> min_buffer_size \<le> buffer_size (validate c)) \<and>
   (max_buffer_size c < min_buffer_size \<longrightarrow> buffer_size (validate c) = max_buffer_size c) \<and>
   max_buffer_size (validate c) = max_buffer_size c \<and>
   m_file_watcher_config (set_watcher_config c p) = validate c \<and>
   worker_initial_buffer c = buffer_size (validate c)"
  by (auto simp: validate_def Let_def set_watcher_config_def worker_initial_buffer_def)

theorem validate_bounds_witness:
  "min_buffer_size \<le> max_buffer_size (FileWatcherConfig_default\<lparr>buffer_size := 100\<rparr>) \<and>
   buffer_size (validate (FileWatcherConfig_default\<lparr>buffer_size := 100\<rparr>)) = 4096 \<and>
   max_buffer_size (FileWatcherConfig_default\<lparr>max_buffer_size := 1000\<rparr>) < min_buffer_size \<and>
   buffer_size (validate (FileWatcherConfig_default\<lparr>max_buffer_size := 1000\<rparr>)) = 1000"
  using validate_bounds [of "FileWatcherConfig_default\<lparr>buffer_size := 100\<rparr>"]
    validate_bounds [of "FileWatcherConfig_default\<lparr>max_buffer_size := 1000\<rparr>"]
  by (simp add: validate_def FileWatcherConfig_default_def min_buffer_size_def)

text \<open>
  C8 as stated fails: with \<open>max_buffer_size = 1000\<close>, below the fixed minimum, the second
  clamp wins and the validated \<open>buffer_size\<close> is 1000, below \<open>min_buffer_size\<close>.
\<close>

theorem validate_min_counterexample:
  "\<not> (min_buffer_size \<le>
        buffer_size (validate (FileWatcherConfig_default\<lparr>buffer_size := 100, max_buffer_size := 1000\<rparr>)))"
  by (simp add: validate_def FileWatcherConfig_default_def min_buffer_size_def)

text \<open>
  C7. With \<open>auto_grow_buffer\<close>, \<open>buffer_size = 4096\<close> and \<open>max_buffer_size = 8192\<close>, the first
  overflow signal grows the buffer to 8192 and calls the callback with \<open>(4096, 8192)\<close>.
  A further signal, with the buffer at its maximum, leaves the buffer alone and makes
  no call at all: the call with \<open>new_size = 0\<close> that the member's comment promises
  (\<^verbatim>\<open>new buffer size (0 if maximum reached)\<close>) is never made.
\<close>

theorem overflow_at_max_makes_no_call:
  "worker_initial_buffer
     (FileWatcherConfig_default\<lparr>buffer_size := 4096, max_buffer_size := 8192, on_buffer_overflow := Some 7\<rparr>)
     = 4096 \<and>
   on_overflow_signal
     (FileWatcherConfig_default\<lparr>buffer_size := 4096, max_buffer_size := 8192, on_buffer_overflow := Some 7\<rparr>)
     True 4096 = (8192, [(7, 4096, 8192)]) \<and>
   on_overflow_signal
     (FileWatcherConfig_default\<lparr>buffer_size := 4096, max_buffer_size := 8192, on_buffer_overflow := Some 7\<rparr>)
     True 8192 = (8192, []) \<and>
   overflow_signals
     (FileWatcherConfig_default\<lparr>buffer_size := 4096, max_buffer_size := 8192, on_buffer_overflow := Some 7\<rparr>)
     [True, True] 4096 = (8192, [(7, 4096, 8192)])"
  by (simp add: worker_initial_buffer_def validate_def on_overflow_signal_def
      FileWatcherConfig_default_def min_buffer_size_def Let_def)

subsection \<open>Retries\<close>

lemma scaled_delay_5: "scaled_delay 5 (3 / 2) = Some 7"
  by code_simp

lemma scaled_delay_7: "scaled_delay 7 (3 / 2) = Some 10"
  by code_simp

lemma scaled_delay_10: "scaled_delay 10 (3 / 2) = Some 15"
  by code_simp

lemma retry_loop_all_fail:
  "(\<And>i. i < n \<Longrightarrow> read_attempt path_str (obs (a + i)) = Inl (e (a + i))) \<Longrightarrow>
   casts_defined (backoff_multiplier config) n a delay \<Longrightarrow>
   (if int (a + n) > INT_MAX then retry_loop config path_str obs n a delay err sl = None
    else (\<exists>s. retry_loop config path_str obs n a delay err sl =
                 Some \<lparr>returned = None, error_out = (if n = 0 then err else e (a + n - 1)),
                       slept = s\<rparr>))"
proof (induction n arbitrary: a delay err sl)
  case 0
  show ?case by simp
next
  case (Suc n)
  have first: "read_attempt path_str (obs a) = Inl (e a)"
    using Suc.prems(1) [of 0] by simp
  have rest: "\<And>i. i < n \<Longrightarrow> read_attempt path_str (obs (Suc a + i)) = Inl (e (Suc a + i))"
    using Suc.prems(1) [of "Suc _"] by simp
  have "\<exists>d1 sl1. casts_defined (backoff_multiplier config) n (Suc a) d1 \<and>
          retry_loop config path_str obs (Suc n) a delay err sl =
          retry_loop config path_str obs n (Suc a) d1 (e a) sl1"
  proof (cases "a > 0")
    case True
    then obtain d1 where d1: "scaled_delay delay (backoff_multiplier config) = Some d1"
      and c: "casts_defined (backoff_multiplier config) n (Suc a) d1"
      using Suc.prems(2) by (auto split: option.splits)
    have "retry_loop config path_str obs (Suc n) a delay err sl =
          retry_loop config path_str obs n (Suc a) d1 (e a) (sl @ [delay])"
      using first d1 True by simp
    with c show ?thesis by blast
  next
    case False
    then have c: "casts_defined (backoff_multiplier config) n (Suc a) delay"
      using Suc.prems(2) by simp
    have "retry_loop config path_str obs (Suc n) a delay err sl =
          retry_loop config path_str obs n (Suc a) delay (e a) sl"
      using first False by simp
    with c show ?thesis by blast
  qed
  then obtain d1 sl1 where c: "casts_defined (backoff_multiplier config) n (Suc a) d1"
    and step: "retry_loop config path_str obs (Suc n) a delay err sl =
          retry_loop config path_str obs n (Suc a) d1 (e a) sl1"
    by blast
  have ih: "if int (Suc a + n) > INT_MAX
            then retry_loop config path_str obs n (Suc a) d1 (e a) sl1 = None
            else (\<exists>s. retry_loop config path_str obs n (Suc a) d1 (e a) sl1 =
                   Some \<lparr>returned = None,
                         error_out = (if n = 0 then e a else e (Suc a + n - 1)), slept = s\<rparr>)"
    by (rule Suc.IH [OF rest c])
  show ?case
    unfolding step using ih
    by (cases "n = 0") (auto simp del: retry_loop.simps split: if_splits)
qed




text \<open>
  With \<open>max_retries\<close> at the largest \<^verbatim>\<open>int\<close> the loop condition cannot fail: when every
  attempt fails, the run ends in the overflow of \<^verbatim>\<open>++attempt\<close> and returns nothing.
\<close>

lemma read_file_with_retry_counter_overflow:
  assumes "\<And>i. i \<le> nat (sint (max_retries config)) \<Longrightarrow>
             read_attempt path_str (obs i) = Inl (e i)"
    and "sint (max_retries config) = INT_MAX"
    and "casts_defined (backoff_multiplier config) (nat (sint (max_retries config) + 1)) 0
           (sint (retry_delay config))"
  shows "read_file_with_retry path_str config obs = None"
proof -
  have fails: "\<And>i. i < nat (sint (max_retries config) + 1) \<Longrightarrow>
          read_attempt path_str (obs (0 + i)) = Inl (e (0 + i))"
    using assms(1) by simp
  have big: "int (0 + nat (sint (max_retries config) + 1)) > INT_MAX"
    using assms(2) by (simp add: INT_MAX_def)
  show ?thesis
    using retry_loop_all_fail [of "nat (sint (max_retries config) + 1)" path_str obs 0 e config
        "sint (retry_delay config)" ErrorInfo_default "[]", OF fails assms(3)] big
    by (simp add: read_file_with_retry_def)
qed

text \<open>
  C5 (as amended). With \<open>max_retries = 3\<close>, \<open>retry_delay = 5\<close> ms and
  \<open>backoff_multiplier = 1.5\<close>, when attempts 0, 1 and 2 fail and attempt 3 succeeds, the
  function returns the content of attempt 3, reports no error, and has slept three
  times, for 5, 7 and 10 ms: each scaled delay is truncated to whole milliseconds
  before it is stored, so the total requested is 22 ms.
\<close>

theorem read_file_with_retry_backoff:
  assumes "\<And>i. i < 3 \<Longrightarrow> read_attempt path_str (obs i) = Inl (e i)"
    and "read_attempt path_str (obs 3) = Inr c"
  shows "read_file_with_retry path_str
           \<lparr>max_retries = 3, retry_delay = 5, backoff_multiplier = 3 / 2\<rparr> obs
         = Some \<lparr>returned = Some c, error_out = ErrorInfo_default, slept = [5, 7, 10]\<rparr>"
proof -
  have n: "(4::nat) = Suc (Suc (Suc (Suc 0)))" by simp
  have a0: "read_attempt path_str (obs 0) = Inl (e 0)" using assms(1) [of 0] by simp
  have a1: "read_attempt path_str (obs (Suc 0)) = Inl (e 1)" using assms(1) [of 1] by simp
  have a2: "read_attempt path_str (obs (Suc (Suc 0))) = Inl (e 2)"
    using assms(1) [of 2] by (simp add: numeral_2_eq_2)
  have a3: "read_attempt path_str (obs (Suc (Suc (Suc 0)))) = Inr c"
    using assms(2) by (simp add: numeral_3_eq_3)
  show ?thesis
    by (simp add: read_file_with_retry_def n a0 a1 a2 a3 scaled_delay_5 scaled_delay_7 scaled_delay_10)
qed

theorem read_file_with_retry_backoff_witness:
  "read_file_with_retry ''p.ini'' \<lparr>max_retries = 3, retry_delay = 5, backoff_multiplier = 3 / 2\<rparr>
     (empty_then_file 3 ''speed=2.5'')
   = Some \<lparr>returned = Some ''speed=2.5'', error_out = ErrorInfo_default, slept = [5, 7, 10]\<rparr>"
  using read_file_with_retry_backoff
    [of "''p.ini''" "empty_then_file 3 ''speed=2.5''"
        "\<lambda>i. ErrorInfo_make FileEmpty ''File is empty'' ''p.ini'' (int i)" "''speed=2.5''"]
  by (simp add: read_attempt_def obs_empty_file_def obs_file_def empty_then_file_def)

text \<open>
  C5 as stated fails: in that run the durations slept add up to 22 ms, less than the
  23.75 ms of the untruncated recurrence \<open>5 + 7.5 + 11.25\<close>.
\<close>

theorem read_file_with_retry_backoff_counterexample:
  "\<not> (5 + 15 / 2 + 45 / 4 \<le>
       (of_int (sum_list (slept (the (read_file_with_retry ''p.ini''
          \<lparr>max_retries = 3, retry_delay = 5, backoff_multiplier = 3 / 2\<rparr>
          (empty_then_file 3 ''speed=2.5''))))) :: rat))"
proof -
  have n: "(4::nat) = Suc (Suc (Suc (Suc 0)))" by simp
  show ?thesis
    by (simp add: read_file_with_retry_def n read_attempt_def obs_empty_file_def obs_file_def
        empty_then_file_def scaled_delay_5 scaled_delay_7 scaled_delay_10)
qed

subsection \<open>Waiting for a change\<close>









subsection \<open>Binding\<close>

text \<open>
  C10. \<^verbatim>\<open>bind(name, variable, default_value)\<close> leaves the variable equal to the default,
  whatever it held before and whatever the state of the object, and records the binding
  under the name.
\<close>

theorem bind_assigns_default:
  "snd (bind name variable dflt (p, mem)) variable = dflt \<and>
   map_of (m_bindings (fst (bind name variable dflt (p, mem)))) name
     = Some \<lparr>target = variable, default_value = dflt\<rparr>"
  by (simp add: bind_def update_conv')

subsection \<open>The file created for a missing JSON file\<close>







subsection \<open>Maps without repeated keys\<close>

lemma kv_line_distinct:
  "distinct (map fst r) \<Longrightarrow> distinct (map fst (kv_line y r l))"
  by (auto simp: kv_line_def Let_def distinct_update split: option.splits)

lemma foldl_kv_line_distinct:
  "distinct (map fst r) \<Longrightarrow> distinct (map fst (foldl (kv_line y) r ls))"
  by (induction ls arbitrary: r) (simp_all add: kv_line_distinct)

lemma SimpleKeyValueParser_parse_distinct:
  "distinct (map fst (snd (SimpleKeyValueParser_parse text y)))"
  by (simp add: SimpleKeyValueParser_parse_def Let_def foldl_kv_line_distinct)

lemma picojson_member_distinct:
  "distinct (map fst r) \<Longrightarrow> distinct (map fst (picojson_member lib r kv))"
  by (cases "(lib, r, kv)" rule: picojson_member.cases) (simp_all add: distinct_update)

lemma foldl_picojson_member_distinct:
  "distinct (map fst r) \<Longrightarrow> distinct (map fst (foldl (picojson_member lib) r kvs))"
  by (induction kvs arbitrary: r) (simp_all add: picojson_member_distinct)

lemma PicojsonParser_parse_distinct:
  "PicojsonParser_parse lib n text = Some (ok, m) \<Longrightarrow> distinct (map fst m)"
  by (auto simp: PicojsonParser_parse_def Let_def foldl_picojson_member_distinct
      split: option.splits sum.splits json.splits)

lemma parse_by_format_distinct:
  "parse_by_format lib n format text = Some (ok, m) \<Longrightarrow> distinct (map fst m)"
  using SimpleKeyValueParser_parse_distinct [of "text" True]
    SimpleKeyValueParser_parse_distinct [of "text" False]
  by (cases format) (auto simp: parse_by_format_def dest: PicojsonParser_parse_distinct)

lemma any_changed_iff:
  "any_changed cur new \<longleftrightarrow> (\<exists>(k, v) \<in> set new. map_of cur k \<noteq> Some v)"
  by (induction cur new rule: any_changed.induct) (auto split: option.splits)

lemma same_map_same_length:
  assumes "distinct (map fst xs)" and "distinct (map fst ys)" and "map_of xs = map_of ys"
  shows "length xs = length ys"
proof -
  have "set xs = set ys"
    using assms by (simp add: map_of_inject_set)
  moreover have "distinct xs" and "distinct ys"
    using assms(1,2) by (simp_all add: distinct_map)
  ultimately show ?thesis
    by (metis distinct_card)
qed

lemma same_map_not_changed:
  assumes "distinct (map fst new)" and "map_of new = map_of cur"
  shows "\<not> any_changed cur new"
proof -
  have "\<And>k v. (k, v) \<in> set new \<Longrightarrow> map_of cur k = Some v"
    using assms by (metis map_of_is_SomeI)
  then show ?thesis by (auto simp: any_changed_iff)
qed

subsection \<open>A save that changes nothing\<close>

text \<open>
  C3. If the file is read and its parsed map is the map ingested before (the same keys
  with the same values), \<^verbatim>\<open>update\<close> returns false, whatever the modify time and the
  clock, makes no callback call, and leaves the memory and the stored map as they were.
\<close>

theorem update_same_map_no_update:
  assumes "distinct (map fst (m_current_values p))"
    and "read_file_with_retry (m_file_path p) (m_file_read_retry_config p) (env_attempts env)
           = Some rr"
    and "returned rr = Some text"
    and "parse_by_format lib n (m_format p) text = Some (parsed, new_values)"
    and "map_of new_values = map_of (m_current_values p)"
  shows "\<exists>r. update lib n p mem env = Some r \<and> \<not> updated r \<and> memory_after r = mem \<and>
             m_current_values (params_after r) = m_current_values p \<and> callback_calls r = []"
proof -
  have d: "distinct (map fst new_values)"
    using assms(4) by (rule parse_by_format_distinct)
  have nc: "\<not> any_changed (m_current_values p) new_values"
    using d assms(5) by (rule same_map_not_changed)
  have len: "length new_values = length (m_current_values p)"
    using d assms(1) assms(5) by (rule same_map_same_length)
  have "\<exists>p1. load_file lib n p mem (env_attempts env) (env_clock env) = Some (False, p1, mem) \<and>
             m_current_values p1 = m_current_values p"
    using assms(2) assms(3) assms(4) nc len by (simp add: load_file_def Let_def)
  then show ?thesis
    by (auto simp: update_def Let_def)
qed

theorem update_same_map_no_update_witness:
  "\<exists>r. update decimal_stdlib 0
          ((Params_new ''params.ini'' Auto)\<lparr>m_current_values := [(''speed'', ''2.5'')]\<rparr>)
          example_memory (env_file ''speed = 2.5'' 200 8) = Some r \<and>
        \<not> updated r \<and> memory_after r = example_memory \<and>
        m_current_values (params_after r) = [(''speed'', ''2.5'')] \<and> callback_calls r = []"
proof -
  have fmt: "detect_format ''params.ini'' = KeyValue" by code_simp
  have rd: "read_file_with_retry ''params.ini'' FileReadRetryConfig_default
              (stable_file ''speed = 2.5'')
            = Some \<lparr>returned = Some ''speed = 2.5'', error_out = ErrorInfo_default, slept = []\<rparr>"
    by (simp add: read_file_with_retry_def FileReadRetryConfig_default_def eval_nat_numeral
        read_attempt_def stable_file_def obs_file_def)
  have ps: "SimpleKeyValueParser_parse ''speed = 2.5'' False = (True, [(''speed'', ''2.5'')])"
    by code_simp
  show ?thesis
    using update_same_map_no_update
      [of "(Params_new ''params.ini'' Auto)\<lparr>m_current_values := [(''speed'', ''2.5'')]\<rparr>"
          "env_file ''speed = 2.5'' 200 8"
          "\<lparr>returned = Some ''speed = 2.5'', error_out = ErrorInfo_default, slept = []\<rparr>"
          "''speed = 2.5''" decimal_stdlib 0 True
          "[(''speed'', ''2.5'')]" example_memory]
      fmt rd ps
    by (simp add: Params_new_def env_file_def parse_by_format_def)
qed

subsection \<open>Update, then notify\<close>

lemma update_bindings_other:
  "a \<notin> set (map (\<lambda>nb. target (snd nb)) bs) \<Longrightarrow> update_bindings lib cur bs mem a = mem a"
  by (induction bs arbitrary: mem)
     (auto simp: Binding_update_def apply_default_def split: option.splits)

lemma update_bindings_target:
  "distinct (map (\<lambda>nb. target (snd nb)) bs) \<Longrightarrow> (name, b) \<in> set bs \<Longrightarrow>
   update_bindings lib cur bs mem (target b) = bound_value lib cur name b (mem (target b))"
proof (induction bs arbitrary: mem)
  case Nil
  then show ?case by simp
next
  case (Cons nb bs)
  obtain n0 b0 where nb: "nb = (n0, b0)" by (cases nb)
  have dist: "distinct (map (\<lambda>nb. target (snd nb)) bs)" and fresh: "target b0 \<notin> set (map (\<lambda>nb. target (snd nb)) bs)"
    using Cons.prems(1) nb by simp_all
  show ?case
  proof (cases "(name, b) = (n0, b0)")
    case True
    then show ?thesis
      using fresh nb
      by (auto simp: update_bindings_other bound_value_def Binding_update_def apply_default_def
          split: option.splits)
  next
    case False
    then have mem: "(name, b) \<in> set bs" using Cons.prems(2) nb by auto
    then have ne: "target b \<noteq> target b0" using fresh by force
    show ?thesis
      using Cons.IH [OF dist mem] ne nb
      by (auto simp: Binding_update_def apply_default_def split: option.splits)
  qed
qed

lemma load_file_True:
  "load_file lib n p mem obs clock = Some (True, p1, mem1) \<Longrightarrow>
   mem1 = update_bindings lib (m_current_values p1) (m_bindings p) mem \<and>
   m_bindings p1 = m_bindings p \<and> m_on_change_callback p1 = m_on_change_callback p \<and>
   m_in_callback p1 = m_in_callback p"
  by (auto simp: load_file_def Let_def split: option.splits if_splits)

text \<open>
  C2. When \<^verbatim>\<open>update\<close> returns true and a change callback is registered, the callback
  is called exactly once before \<^verbatim>\<open>update\<close> returns, on the thread that called
  \<^verbatim>\<open>update\<close>, and the memory it finds is the memory that \<^verbatim>\<open>update\<close> leaves: the loop
  over the bindings has run, so (for bindings to different variables) every bound
  variable holds the value parsed from the new map, or its default when the name is
  absent, or its old value when the text does not parse.
\<close>

theorem update_notifies_after_applying:
  assumes "update lib n p mem env = Some r" and "updated r" and "m_on_change_callback p = Some cb"
  shows "callback_calls r = [(cb, env_thread env, memory_after r)] \<and>
         (distinct (map (\<lambda>nb. target (snd nb)) (m_bindings p)) \<longrightarrow>
            (\<forall>(name, b) \<in> set (m_bindings p).
               memory_after r (target b) =
                 bound_value lib (m_current_values (params_after r)) name b (mem (target b))))"
proof -
  from assms(1,2) obtain p1 mem1 where
    lf: "load_file lib n p mem (env_attempts env) (env_clock env) = Some (True, p1, mem1)"
    by (auto simp: update_def Let_def split: if_splits option.splits)
  note facts = load_file_True [OF lf]
  have cb: "m_on_change_callback p1 = Some cb" using facts assms(3) by simp
  have r: "callback_calls r = [(cb, env_thread env, mem1)] \<and> memory_after r = mem1 \<and>
           m_current_values (params_after r) = m_current_values p1"
    using assms(1,2) lf cb by (auto simp: update_def Let_def split: if_splits)
  show ?thesis
    using r facts by (auto simp: update_bindings_target)
qed

theorem update_notifies_after_applying_witness:
  "updated (the (update decimal_stdlib 0 (on_change (Some 1) (fst speed_bound)) (snd speed_bound)
              (env_file ''speed=2.5'' 100 7))) \<and>
   callback_calls (the (update decimal_stdlib 0 (on_change (Some 1) (fst speed_bound))
              (snd speed_bound) (env_file ''speed=2.5'' 100 7)))
     = [(1, 0, memory_after (the (update decimal_stdlib 0 (on_change (Some 1) (fst speed_bound))
              (snd speed_bound) (env_file ''speed=2.5'' 100 7))))] \<and>
   memory_after (the (update decimal_stdlib 0 (on_change (Some 1) (fst speed_bound))
              (snd speed_bound) (env_file ''speed=2.5'' 100 7))) 0 = VFloat (5 / 2)"
proof -
  have o: "update_outcome (update decimal_stdlib 0 (on_change (Some 1) (fst speed_bound))
              (snd speed_bound) (env_file ''speed=2.5'' 100 7)) 0 = Some (True, VFloat (5 / 2))"
    by code_simp
  then obtain r where r: "update decimal_stdlib 0 (on_change (Some 1) (fst speed_bound))
              (snd speed_bound) (env_file ''speed=2.5'' 100 7) = Some r"
    and u: "updated r" and m: "memory_after r 0 = VFloat (5 / 2)"
    by (auto simp: update_outcome_def split: option.splits)
  have cb: "m_on_change_callback (on_change (Some 1) (fst speed_bound)) = Some 1"
    by (simp add: on_change_def)
  have d: "distinct (map (\<lambda>nb. target (snd nb)) (m_bindings (on_change (Some 1) (fst speed_bound))))"
    by (simp add: on_change_def speed_bound_def bind_def Params_new_def)
  show ?thesis
    using update_notifies_after_applying [OF r u cb] d r u m by (simp add: env_file_def)
qed

subsection \<open>The end-to-end scenario\<close>

lemma SimpleKeyValueParser_parse_flag:
  "SimpleKeyValueParser_parse s y = (ok, m) \<Longrightarrow> ok = (m \<noteq> [])"
  by (auto simp: SimpleKeyValueParser_parse_def Let_def)

lemma SimpleKeyValueParser_parse_empty:
  "SimpleKeyValueParser_parse [] y = (False, [])"
  by (simp add: SimpleKeyValueParser_parse_def getlines_def)

lemma read_stable_file:
  "s \<noteq> [] \<Longrightarrow> 0 \<le> sint (max_retries config) \<Longrightarrow>
   read_file_with_retry path config (stable_file s)
     = Some \<lparr>returned = Some s, error_out = ErrorInfo_default, slept = []\<rparr>"
proof -
  assume s: "s \<noteq> []" and c: "0 \<le> sint (max_retries config)"
  obtain k where k: "nat (sint (max_retries config) + 1) = Suc k"
    using c by (cases "nat (sint (max_retries config) + 1)") auto
  show ?thesis
    using s by (simp add: read_file_with_retry_def k read_attempt_def stable_file_def obs_file_def)
qed

lemma read_empty_file:
  "\<exists>rr. read_file_with_retry path FileReadRetryConfig_default (stable_file []) = Some rr \<and>
        returned rr = None"
proof -
  have n: "(4::nat) = Suc (Suc (Suc (Suc 0)))" by simp
  show ?thesis
    by (simp add: read_file_with_retry_def FileReadRetryConfig_default_def n read_attempt_def
        stable_file_def obs_file_def scaled_delay_5 scaled_delay_7 scaled_delay_10 INT_MAX_def)
qed

lemma any_changed_from_empty:
  "m \<noteq> [] \<Longrightarrow> any_changed [] m"
  by (cases m) auto

lemma smaller_map_shorter:
  assumes "distinct (map fst m1)" and "distinct (map fst m2)" and "\<not> any_changed m1 m2"
    and "map_of m1 k = Some v" and "map_of m2 k = None"
  shows "length m2 \<noteq> length m1"
proof -
  have sub: "set m2 \<subseteq> set m1"
    using assms(3) by (auto simp: any_changed_iff dest: map_of_SomeD)
  have in1: "(k, v) \<in> set m1"
    using assms(4) by (rule map_of_SomeD)
  have out2: "(k, v) \<notin> set m2"
    using assms(5) by (force simp: map_of_eq_None_iff)
  have "set m2 \<subset> set m1"
    using sub in1 out2 by auto
  then have "card (set m2) < card (set m1)"
    by (simp add: psubset_card_mono)
  moreover have "distinct m1" and "distinct m2"
    using assms(1,2) by (simp_all add: distinct_map)
  ultimately show ?thesis
    by (simp add: distinct_card)
qed

lemma detect_format_ini: "detect_format ''params.ini'' = KeyValue"
  by code_simp

text \<open>
  C1 (as amended). A float variable is bound under \<open>speed\<close> with default 1.0 in a
  \<^verbatim>\<open>Params\<close> over a key-value file. After the file is written with the pair
  \<^verbatim>\<open>speed=2.5\<close> (alone or among other pairs), \<^verbatim>\<open>update\<close> returns true and the variable
  is 2.5. After the file is rewritten without the key \<open>speed\<close> but with at least one
  key-value pair (and the modify time differs or the cache window has passed),
  \<^verbatim>\<open>update\<close> returns true and the variable is back at 1.0. After the file is rewritten
  with no key-value pair at all, \<^verbatim>\<open>update\<close> returns false and the variable keeps 2.5.
\<close>

theorem speed_scenario:
  assumes lib: "extract_float lib ''2.5'' = Some (5 / 2, [])"
    and parse1: "SimpleKeyValueParser_parse text1 False = (ok1, m1)"
    and present: "map_of m1 ''speed'' = Some ''2.5''"
    and parse2: "SimpleKeyValueParser_parse text2 False = (True, m2)"
    and absent: "map_of m2 ''speed'' = None"
    and parse3: "SimpleKeyValueParser_parse text3 False = (False, m3)"
    and fresh: "mt2 \<noteq> mt1 \<or> cache_duration \<le> t2 - t1"
  shows "update_outcome
           (update lib n (fst (bind ''speed'' a (VFloat 1) (Params_new ''params.ini'' Auto, mem)))
              (snd (bind ''speed'' a (VFloat 1) (Params_new ''params.ini'' Auto, mem)))
              (env_file text1 t1 mt1)) a
         = Some (True, VFloat (5 / 2)) \<and>
         update_outcome
           (then_update lib n
              (update lib n (fst (bind ''speed'' a (VFloat 1) (Params_new ''params.ini'' Auto, mem)))
                 (snd (bind ''speed'' a (VFloat 1) (Params_new ''params.ini'' Auto, mem)))
                 (env_file text1 t1 mt1))
              (env_file text2 t2 mt2)) a
         = Some (True, VFloat 1) \<and>
         update_outcome
           (then_update lib n
              (update lib n (fst (bind ''speed'' a (VFloat 1) (Params_new ''params.ini'' Auto, mem)))
                 (snd (bind ''speed'' a (VFloat 1) (Params_new ''params.ini'' Auto, mem)))
                 (env_file text1 t1 mt1))
              (env_file text3 t3 mt3)) a
         = Some (False, VFloat (5 / 2))"
proof -
  define p0 where "p0 = fst (bind ''speed'' a (VFloat 1) (Params_new ''params.ini'' Auto, mem))"
  define mem0 where "mem0 = snd (bind ''speed'' a (VFloat 1) (Params_new ''params.ini'' Auto, mem))"
  define mem1 where "mem1 = mem0(a := VFloat (5 / 2))"
  have p0: "m_file_path p0 = ''params.ini''" "m_format p0 = KeyValue"
    "m_file_read_retry_config p0 = FileReadRetryConfig_default"
    "m_bindings p0 = [(''speed'', \<lparr>target = a, default_value = VFloat 1\<rparr>)]"
    "m_current_values p0 = []" "\<not> m_in_callback p0" "\<not> file_exists (m_file_cache p0)"
    "m_on_change_callback p0 = None"
    by (simp_all add: p0_def bind_def Params_new_def detect_format_ini)
  have retries: "0 \<le> sint (max_retries FileReadRetryConfig_default)"
    by (simp add: FileReadRetryConfig_default_def)
  have pvf: "parse_value_float lib ''2.5'' = Some (5 / 2)"
    by (simp add: parse_value_float_def extract_word_def lib)
  have bu: "\<And>m. Binding_update lib \<lparr>target = a, default_value = VFloat 1\<rparr> ''2.5'' m
              = (True, m(a := VFloat (5 / 2)))"
    by (simp add: Binding_update_def pvf)
  have m1: "m1 \<noteq> []" using present by auto
  have t1: "text1 \<noteq> []"
    using parse1 m1 SimpleKeyValueParser_parse_empty [of False] by auto
  have ok1: "ok1" using SimpleKeyValueParser_parse_flag [OF parse1] m1 by simp
  have rd1: "read_file_with_retry ''params.ini'' FileReadRetryConfig_default (stable_file text1)
             = Some \<lparr>returned = Some text1, error_out = ErrorInfo_default, slept = []\<rparr>"
    using t1 retries by (rule read_stable_file)
  define p1 where "p1 = p0\<lparr>m_current_values := m1, m_last_error := ErrorInfo_default\<rparr>"
  have lf1: "load_file lib n p0 mem0 (stable_file text1) t1 = Some (True, p1, mem1)"
    using p0 rd1 parse1 ok1 present any_changed_from_empty [OF m1]
    by (simp add: load_file_def parse_by_format_def bu p1_def mem1_def)
  define p2 where
    "p2 = p1\<lparr>m_file_cache := \<lparr>last_modify_time = mt1, last_access = t1, file_exists = True\<rparr>\<rparr>"
  have u1: "update lib n p0 mem0 (env_file text1 t1 mt1)
            = Some \<lparr>updated = True, params_after = p2, memory_after = mem1,
                    created_file = None, callback_calls = []\<rparr>"
    using p0 lf1
    by (simp add: update_def env_file_def ensure_file_exists_def p2_def p1_def)
  have p2: "m_file_path p2 = ''params.ini''" "m_format p2 = KeyValue"
    "m_file_read_retry_config p2 = FileReadRetryConfig_default"
    "m_bindings p2 = [(''speed'', \<lparr>target = a, default_value = VFloat 1\<rparr>)]"
    "m_current_values p2 = m1" "\<not> m_in_callback p2"
    "m_file_cache p2 = \<lparr>last_modify_time = mt1, last_access = t1, file_exists = True\<rparr>"
    "m_on_change_callback p2 = None"
    using p0 by (simp_all add: p2_def p1_def)
  have mem1a: "mem1 a = VFloat (5 / 2)" by (simp add: mem1_def)
  \<comment> \<open>the second file: another pair, no \<open>speed\<close>\<close>
  have m2: "m2 \<noteq> []"
    using SimpleKeyValueParser_parse_flag [OF parse2] by simp
  have t2: "text2 \<noteq> []"
    using parse2 SimpleKeyValueParser_parse_empty [of False] by auto
  have rd2: "read_file_with_retry ''params.ini'' FileReadRetryConfig_default (stable_file text2)
             = Some \<lparr>returned = Some text2, error_out = ErrorInfo_default, slept = []\<rparr>"
    using t2 retries by (rule read_stable_file)
  have d1: "distinct (map fst m1)"
    using SimpleKeyValueParser_parse_distinct [of text1 False] parse1 by simp
  have d2: "distinct (map fst m2)"
    using SimpleKeyValueParser_parse_distinct [of text2 False] parse2 by simp
  have differs: "any_changed m1 m2 \<or> length m2 \<noteq> length m1"
    using smaller_map_shorter [OF d1 d2 _ present absent] by blast
  have lf2: "\<exists>p3. load_file lib n p2 mem1 (stable_file text2) t2
               = Some (True, p3, mem1(a := VFloat 1)) \<and> m_on_change_callback p3 = None"
    using p2 rd2 parse2 differs absent
    by (auto simp: load_file_def parse_by_format_def apply_default_def)
  have u2: "update_outcome (update lib n p2 mem1 (env_file text2 t2 mt2)) a
            = Some (True, VFloat 1)"
    using p2 lf2 fresh
    by (auto simp: update_def env_file_def ensure_file_exists_def update_outcome_def)
  \<comment> \<open>the third file: no pair at all\<close>
  have m3: "m3 = []"
    using SimpleKeyValueParser_parse_flag [OF parse3] by simp
  have lf3: "\<exists>p3. load_file lib n p2 mem1 (stable_file text3) t3 = Some (False, p3, mem1)"
  proof (cases "text3 = []")
    case True
    then show ?thesis
      using p2 read_empty_file [of "''params.ini''"]
      by (auto simp: load_file_def)
  next
    case False
    then have "read_file_with_retry ''params.ini'' FileReadRetryConfig_default (stable_file text3)
             = Some \<lparr>returned = Some text3, error_out = ErrorInfo_default, slept = []\<rparr>"
      using retries by (rule read_stable_file)
    then show ?thesis
      using p2 parse3 m3 by (simp add: load_file_def parse_by_format_def)
  qed
  have u3: "update_outcome (update lib n p2 mem1 (env_file text3 t3 mt3)) a
            = Some (False, VFloat (5 / 2))"
    using p2 lf3 mem1a
    by (auto simp: update_def env_file_def ensure_file_exists_def update_outcome_def)
  show ?thesis
    using u1 u2 u3 mem1a
    by (simp add: update_outcome_def then_update_def p0_def [symmetric] mem0_def [symmetric])
qed

theorem speed_scenario_witness:
  "update_outcome
     (update decimal_stdlib 0 (fst speed_bound) (snd speed_bound)
        (env_file (''speed=2.5'' @ [CHR 0x0A] @ ''other=1'') 100 7)) 0
   = Some (True, VFloat (5 / 2)) \<and>
   update_outcome
     (then_update decimal_stdlib 0
        (update decimal_stdlib 0 (fst speed_bound) (snd speed_bound)
           (env_file (''speed=2.5'' @ [CHR 0x0A] @ ''other=1'') 100 7))
        (env_file ''other=1'' 200 8)) 0
   = Some (True, VFloat 1) \<and>
   update_outcome
     (then_update decimal_stdlib 0
        (update decimal_stdlib 0 (fst speed_bound) (snd speed_bound)
           (env_file (''speed=2.5'' @ [CHR 0x0A] @ ''other=1'') 100 7))
        (env_file ''# no values'' 200 8)) 0
   = Some (False, VFloat (5 / 2))"
proof -
  have h1: "extract_float decimal_stdlib ''2.5'' = Some (5 / 2, [])" by code_simp
  have h2: "SimpleKeyValueParser_parse (''speed=2.5'' @ [CHR 0x0A] @ ''other=1'') False
              = (True, [(''speed'', ''2.5''), (''other'', ''1'')])"
    by code_simp
  have h3: "map_of [(''speed'', ''2.5''), (''other'', ''1'')] ''speed'' = Some ''2.5''" by simp
  have h4: "SimpleKeyValueParser_parse ''other=1'' False = (True, [(''other'', ''1'')])"
    by code_simp
  have h5: "map_of [(''other'', ''1'')] ''speed'' = None" by simp
  have h6: "SimpleKeyValueParser_parse ''# no values'' False = (False, [])"
    by code_simp
  have h7: "(8::int) \<noteq> 7 \<or> cache_duration \<le> 200 - 100" by simp
  show ?thesis
    using speed_scenario [OF h1 h2 h3 h4 h5 h6 h7, of 0 0 example_memory 200 8]
    by (simp add: speed_bound_def)
qed

text \<open>
  C1 as stated fails: when removing \<open>speed\<close> leaves no key-value pair, whether the file
  is then empty or holds only comments, the second \<^verbatim>\<open>update\<close> returns false and the
  variable keeps 2.5.
\<close>

theorem speed_removed_counterexample:
  "update_outcome
     (update decimal_stdlib 0 (fst speed_bound) (snd speed_bound) (env_file ''speed=2.5'' 100 7)) 0
   = Some (True, VFloat (5 / 2)) \<and>
   update_outcome
     (then_update decimal_stdlib 0
        (update decimal_stdlib 0 (fst speed_bound) (snd speed_bound) (env_file ''speed=2.5'' 100 7))
        (env_file [] 200 8)) 0
   = Some (False, VFloat (5 / 2)) \<and>
   update_outcome
     (then_update decimal_stdlib 0
        (update decimal_stdlib 0 (fst speed_bound) (snd speed_bound) (env_file ''speed=2.5'' 100 7))
        (env_file (file_template KeyValue) 200 8)) 0
   = Some (False, VFloat (5 / 2))"
  by code_simp

text \<open>The stored map never repeats a key: every \<^verbatim>\<open>update\<close> keeps this.\<close>

lemma update_keeps_distinct:
  assumes "distinct (map fst (m_current_values p))" and "update lib n p mem env = Some r"
  shows "distinct (map fst (m_current_values (params_after r)))"
proof -
  have "\<And>u p1 mem1. load_file lib n p mem (env_attempts env) (env_clock env) = Some (u, p1, mem1)
          \<Longrightarrow> distinct (map fst (m_current_values p1))"
    using assms(1)
    by (auto simp: load_file_def Let_def split: option.splits if_splits
        dest: parse_by_format_distinct)
  then show ?thesis
    using assms by (auto simp: update_def Let_def split: if_splits option.splits)
qed

end
